theory Spec2Isabelle
  imports Complex_Main
begin

section \<open>JavaScript values\<close>

text \<open>
  A JavaScript number is a finite value (idealised as a real), one of the two infinities
  or NaN. The values a point object holds are strings, numbers or \<open>undefined\<close>.
\<close>

datatype jsnum = Fin real | PosInf | NegInf | NaN

datatype jsval = JUndefined | JStr string | JNum jsnum

datatype error = TypeError

section \<open>The built-in Map, as the classification tables use it\<close>

text \<open>
  \<open>this._colors\<close> and \<open>this._shapes\<close> are JavaScript \<open>Map\<close>s from a match key to a
  visual value; both come from the \<open>value\<close> property of a DOM input, so both are strings.
  A Map iterates in insertion order, \<open>set\<close> on a present key overwrites the value in place
  and \<open>set\<close> on an absent key appends; \<open>get\<close> on an absent key is \<open>undefined\<close>.
\<close>

type_synonym table = "(string \<times> string) list"

fun Map_set :: "string \<Rightarrow> string \<Rightarrow> table \<Rightarrow> table" where
  "Map_set k v [] = [(k, v)]"
| "Map_set k v (e # es) = (if fst e = k then (k, v) # es else e # Map_set k v es)"

definition Map_get :: "table \<Rightarrow> string \<Rightarrow> jsval" where
  "Map_get t k = (case map_of t k of None \<Rightarrow> JUndefined | Some v \<Rightarrow> JStr v)"

definition Map_delete :: "string \<Rightarrow> table \<Rightarrow> table" where
  "Map_delete k t = filter (\<lambda>e. fst e \<noteq> k) t"

definition Map_keys :: "table \<Rightarrow> string list" where
  "Map_keys t = map fst t"

definition Map_has :: "table \<Rightarrow> string \<Rightarrow> bool" where
  "Map_has t k = (k \<in> set (Map_keys t))"

section \<open>Points\<close>

text \<open>
  A point is the object literal that \<open>loadData\<close> builds, with the properties \<open>x\<close>, \<open>y\<close>,
  \<open>color\<close> and \<open>shape\<close> that the update methods add later; \<open>None\<close> is a property that has
  not been created yet. The fields carry the prefix \<open>p_\<close>.
\<close>

record point =
  p_symbol :: jsval
  p_primaryAccession :: jsval
  p_organism :: jsval
  p_value :: jsnum
  p_type :: jsval
  p_unit :: jsval
  p_x :: "jsnum option"
  p_y :: "jsnum option"
  p_color :: "jsval option"
  p_shape :: "jsval option"

fun own :: "'a option \<Rightarrow> 'a list" where
  "own None = []"
| "own (Some v) = [v]"

text \<open>
  \<open>Object.values(p)\<close>: the values of the own properties, in creation order (the literal's
  six, then \<open>x\<close>, \<open>y\<close>, \<open>color\<close>, \<open>shape\<close> as the constructor calls the update methods).
\<close>

definition Object_values :: "point \<Rightarrow> jsval list" where
  "Object_values p =
     [p_symbol p, p_primaryAccession p, p_organism p, JNum (p_value p), p_type p, p_unit p]
     @ map JNum (own (p_x p)) @ map JNum (own (p_y p)) @ own (p_color p) @ own (p_shape p)"

text \<open>\<open>Array.prototype.includes\<close> compares with SameValueZero: no coercion.\<close>

definition Array_includes :: "jsval list \<Rightarrow> jsval \<Rightarrow> bool" where
  "Array_includes vs v = (v \<in> set vs)"

section \<open>The chart's state\<close>

record graph =
  colors :: table
  shapes :: table
  data :: "point list"

text \<open>
  The callback of \<open>updatePointColors\<close>: the colour is first set to the Default entry's
  value; then \<open>some\<close> walks the keys in table order and stops at the first key that is one
  of the point's own-property values, which overwrites the colour.
\<close>

definition assignColor :: "table \<Rightarrow> point \<Rightarrow> point" where
  "assignColor t p =
     (let p1 = p\<lparr>p_color := Some (Map_get t ''Default'')\<rparr> in
      case find (\<lambda>c. Array_includes (Object_values p1) (JStr c)) (Map_keys t) of
        None \<Rightarrow> p1
      | Some c \<Rightarrow> p1\<lparr>p_color := Some (Map_get t c)\<rparr>)"

definition updatePointColors :: "graph \<Rightarrow> graph" where
  "updatePointColors g = g\<lparr>data := map (assignColor (colors g)) (data g)\<rparr>"

definition assignShape :: "table \<Rightarrow> point \<Rightarrow> point" where
  "assignShape t p =
     (let p1 = p\<lparr>p_shape := Some (Map_get t ''Default'')\<rparr> in
      case find (\<lambda>s. Array_includes (Object_values p1) (JStr s)) (Map_keys t) of
        None \<Rightarrow> p1
      | Some s \<Rightarrow> p1\<lparr>p_shape := Some (Map_get t s)\<rparr>)"

definition updatePointShapes :: "graph \<Rightarrow> graph" where
  "updatePointShapes g = g\<lparr>data := map (assignShape (shapes g)) (data g)\<rparr>"

text \<open>
  \<open>modalOK\<close>: \<open>ty\<close> is the dialog's \<open>data-type\<close>, \<open>val\<close> the chosen match key and \<open>upd\<close>
  the chosen colour or shape. Anything but \<open>'Color'\<close> edits the shape table.
\<close>

definition modalOK :: "string \<Rightarrow> string \<Rightarrow> string \<Rightarrow> graph \<Rightarrow> graph" where
  "modalOK ty val upd g =
     (if ty = ''Color''
      then updatePointColors (g\<lparr>colors := Map_set val upd (colors g)\<rparr>)
      else updatePointShapes (g\<lparr>shapes := Map_set val upd (shapes g)\<rparr>))"

text \<open>
  The click handlers of the rows' close buttons, installed by \<open>updateTableColor\<close> and
  \<open>updateTableShape\<close>: \<open>key\<close> is the row's \<open>data-key\<close>.
\<close>

definition colorRowClose :: "string \<Rightarrow> graph \<Rightarrow> graph" where
  "colorRowClose key g =
     (if key = ''Default'' then g
      else updatePointColors (g\<lparr>colors := Map_delete key (colors g)\<rparr>))"

definition shapeRowClose :: "string \<Rightarrow> graph \<Rightarrow> graph" where
  "shapeRowClose key g =
     (if key = ''Default'' then g
      else updatePointShapes (g\<lparr>shapes := Map_delete key (shapes g)\<rparr>))"

section \<open>Loading the points\<close>

text \<open>
  The input of \<open>loadData\<close>: an array of target proteins, each with a protein descriptor
  and an array of activities. The descriptor's \<open>organism\<close> is an object with a \<open>name\<close>;
  \<open>None\<close> is a descriptor without the property. The concentration is a number. The
  fields carry the prefixes \<open>tp_\<close>, \<open>pr_\<close>, \<open>o_\<close> and \<open>a_\<close>.
\<close>

record organism =
  o_name :: jsval

record protein =
  pr_symbol :: jsval
  pr_primaryAccession :: jsval
  pr_organism :: "organism option"

record activity =
  a_type :: jsval
  a_conc :: jsnum
  a_relation :: jsval
  a_unit :: jsval

record targetProtein =
  tp_protein :: protein
  tp_activities :: "activity list"

text \<open>
  The object literal of \<open>loadData\<close>. Reading \<open>p.protein.organism.name\<close> when
  \<open>p.protein.organism\<close> is \<open>undefined\<close> throws a TypeError; a missing \<open>unit\<close> is only
  copied as \<open>undefined\<close>.
\<close>

definition mkPoint :: "targetProtein \<Rightarrow> activity \<Rightarrow> error + point" where
  "mkPoint p a =
     (case pr_organism (tp_protein p) of
        None \<Rightarrow> Inl TypeError
      | Some org \<Rightarrow>
          Inr \<lparr>p_symbol = pr_symbol (tp_protein p),
               p_primaryAccession = pr_primaryAccession (tp_protein p),
               p_organism = o_name org,
               p_value = a_conc a,
               p_type = a_type a,
               p_unit = a_unit a,
               p_x = None, p_y = None, p_color = None, p_shape = None\<rparr>)"

text \<open>The inner \<open>forEach\<close> over one protein's activities, pushing onto \<open>points\<close>.\<close>

fun pushActivities :: "targetProtein \<Rightarrow> activity list \<Rightarrow> point list \<Rightarrow> error + point list" where
  "pushActivities p [] points = Inr points"
| "pushActivities p (a # as) points =
     (case mkPoint p a of
        Inl e \<Rightarrow> Inl e
      | Inr point \<Rightarrow> pushActivities p as (points @ [point]))"

text \<open>The outer \<open>forEach\<close> over the proteins.\<close>

fun loadProteins :: "targetProtein list \<Rightarrow> point list \<Rightarrow> error + point list" where
  "loadProteins [] points = Inr points"
| "loadProteins (p # ps) points =
     (case pushActivities p (tp_activities p) points of
        Inl e \<Rightarrow> Inl e
      | Inr points' \<Rightarrow> loadProteins ps points')"

definition loadData :: "targetProtein list \<Rightarrow> error + point list" where
  "loadData proteins = loadProteins proteins []"

text \<open>The point that the object literal builds for a protein that has an organism and one of
  its activities.\<close>

abbreviation (input) pointOf :: "targetProtein \<Rightarrow> activity \<Rightarrow> point" where
  "pointOf p a \<equiv>
     \<lparr>p_symbol = pr_symbol (tp_protein p),
      p_primaryAccession = pr_primaryAccession (tp_protein p),
      p_organism = o_name (the (pr_organism (tp_protein p))),
      p_value = a_conc a, p_type = a_type a, p_unit = a_unit a,
      p_x = None, p_y = None, p_color = None, p_shape = None\<rparr>"

section \<open>Positions\<close>

text \<open>
  \<open>updatePointPositions\<close> reads the two checkboxes (\<open>jitter\<close>, \<open>violin\<close>) and the two d3
  scales. The band scale is taken as it is used: \<open>X\<close> gives the start of a type's band
  and \<open>bandwidth\<close> the width of every band; \<open>Y\<close> is the logarithmic scale. \<open>rnd n\<close> is
  the value of the \<open>n\<close>-th call of \<open>Math.random\<close>.
\<close>

definition dx_of :: "bool \<Rightarrow> bool \<Rightarrow> real \<Rightarrow> real \<Rightarrow> real" where
  "dx_of jitter violin xwidth r =
     (if jitter \<and> violin then 2 * xwidth - (xwidth * r)
      else if jitter then xwidth + (xwidth * 2 * r)
      else 2 * xwidth)"

fun positions ::
  "bool \<Rightarrow> bool \<Rightarrow> (jsval \<Rightarrow> real) \<Rightarrow> real \<Rightarrow> (jsnum \<Rightarrow> jsnum) \<Rightarrow> (nat \<Rightarrow> real) \<Rightarrow> nat
     \<Rightarrow> point list \<Rightarrow> point list" where
  "positions jitter violin X bandwidth Y rnd n [] = []"
| "positions jitter violin X bandwidth Y rnd n (d # ds) =
     d\<lparr>p_x := Some (Fin (X (p_type d) + dx_of jitter violin (bandwidth / 4) (rnd n))),
       p_y := Some (Y (p_value d))\<rparr>
     # positions jitter violin X bandwidth Y rnd (if jitter then Suc n else n) ds"

definition updatePointPositions ::
  "bool \<Rightarrow> bool \<Rightarrow> (jsval \<Rightarrow> real) \<Rightarrow> real \<Rightarrow> (jsnum \<Rightarrow> jsnum) \<Rightarrow> (nat \<Rightarrow> real)
     \<Rightarrow> graph \<Rightarrow> graph" where
  "updatePointPositions jitter violin X bandwidth Y rnd g =
     g\<lparr>data := positions jitter violin X bandwidth Y rnd 0 (data g)\<rparr>"

section \<open>The y axis\<close>

text \<open>\<open>Math.min\<close> and \<open>Math.max\<close> on numbers: NaN wins, then the usual order.\<close>

fun Math_min :: "jsnum \<Rightarrow> jsnum \<Rightarrow> jsnum" where
  "Math_min NaN b = NaN"
| "Math_min a NaN = NaN"
| "Math_min NegInf b = NegInf"
| "Math_min a NegInf = NegInf"
| "Math_min PosInf b = b"
| "Math_min a PosInf = a"
| "Math_min (Fin a) (Fin b) = Fin (min a b)"

fun Math_max :: "jsnum \<Rightarrow> jsnum \<Rightarrow> jsnum" where
  "Math_max NaN b = NaN"
| "Math_max a NaN = NaN"
| "Math_max PosInf b = PosInf"
| "Math_max a PosInf = PosInf"
| "Math_max NegInf b = b"
| "Math_max a NegInf = a"
| "Math_max (Fin a) (Fin b) = Fin (max a b)"

text \<open>The \<open>reduce\<close> of \<open>initYAxis\<close>, from \<open>[+Infinity, -Infinity]\<close>.\<close>

definition initYAxis_minmax :: "point list \<Rightarrow> jsnum \<times> jsnum" where
  "initYAxis_minmax ps =
     foldl (\<lambda>p c. (Math_min (p_value c) (fst p), Math_max (p_value c) (snd p))) (PosInf, NegInf) ps"

text \<open>The comparisons \<open><=\<close> and \<open><\<close> on numbers: false as soon as one side is NaN.\<close>

fun js_le :: "jsnum \<Rightarrow> jsnum \<Rightarrow> bool" where
  "js_le NaN b = False"
| "js_le a NaN = False"
| "js_le NegInf b = True"
| "js_le a PosInf = True"
| "js_le (Fin a) (Fin b) = (a \<le> b)"
| "js_le a b = False"

definition js_lt :: "jsnum \<Rightarrow> jsnum \<Rightarrow> bool" where
  "js_lt a b = (js_le a b \<and> a \<noteq> b)"

text \<open>\<open>Math.floor\<close> and \<open>Math.ceil\<close>: NaN and the infinities are returned as they are.\<close>

fun Math_floor :: "jsnum \<Rightarrow> jsnum" where
  "Math_floor (Fin a) = Fin (real_of_int \<lfloor>a\<rfloor>)"
| "Math_floor a = a"

fun Math_ceil :: "jsnum \<Rightarrow> jsnum" where
  "Math_ceil (Fin a) = Fin (real_of_int \<lceil>a\<rceil>)"
| "Math_ceil a = a"

text \<open>
  The \<open>nice\<close> of d3's logarithmic scale. \<open>logs\<close> and \<open>pows\<close> are the scale's own
  logarithm and power, in base 10 \<open>Math.log10\<close> and the number read from \<open>1e\<close> followed by
  the exponent (both reflected when the domain starts below zero). They compute in double
  precision, so they are taken as they are: \<open>logs\<close> of a number just below a power of ten
  may be the whole exponent. The lower bound is replaced by \<open>pows(Math.floor(logs(x0)))\<close>
  and the upper bound by \<open>pows(Math.ceil(logs(x1)))\<close>, the other way round for a
  descending domain.
\<close>

definition scaleLog_nice ::
  "(jsnum \<Rightarrow> jsnum) \<Rightarrow> (jsnum \<Rightarrow> jsnum) \<Rightarrow> jsnum \<times> jsnum \<Rightarrow> jsnum \<times> jsnum" where
  "scaleLog_nice logs pows d =
     (let x0 = fst d; x1 = snd d in
      if js_lt x1 x0
      then (pows (Math_ceil (logs x0)), pows (Math_floor (logs x1)))
      else (pows (Math_floor (logs x0)), pows (Math_ceil (logs x1))))"

text \<open>The domain of the scale that \<open>initYAxis\<close> builds: \<open>domain([min, max])\<close>, then \<open>nice()\<close>.\<close>

definition initYAxis :: "(jsnum \<Rightarrow> jsnum) \<Rightarrow> (jsnum \<Rightarrow> jsnum) \<Rightarrow> point list \<Rightarrow> jsnum \<times> jsnum" where
  "initYAxis logs pows ps = scaleLog_nice logs pows (initYAxis_minmax ps)"

section \<open>Histogram bins\<close>

text \<open>
  d3's \<open>bisect\<close> (\<open>bisectRight\<close> with the ascending comparator) between \<open>lo\<close> and \<open>hi\<close>;
  an index past the end of the array reads \<open>undefined\<close>, which compares as not greater.
\<close>

function bisectRight :: "jsnum list \<Rightarrow> jsnum \<Rightarrow> nat \<Rightarrow> nat \<Rightarrow> nat" where
  "bisectRight a x lo hi =
     (if lo < hi
      then (let mid = (lo + hi) div 2 in
            if mid < length a \<and> js_lt x (a ! mid)
            then bisectRight a x lo mid
            else bisectRight a x (mid + 1) hi)
      else lo)"
  by pat_completeness auto
termination
  by (relation "measure (\<lambda>(a, x, lo, hi). hi - lo)") auto

declare bisectRight.simps [simp del]

record bucket =
  b_x0 :: jsnum
  b_x1 :: jsnum
  b_values :: "jsnum list"

text \<open>
  The generator \<open>d3.bin().domain(ydomain).thresholds(ticks).value(d => d)\<close>: thresholds at or
  below the domain's start and above its end are dropped, one bin is made per gap, and
  each value inside the domain is pushed into the bin that \<open>bisect\<close> gives; a value
  outside the domain is ignored.
\<close>

definition trim_thresholds :: "jsnum \<Rightarrow> jsnum \<Rightarrow> jsnum list \<Rightarrow> jsnum list" where
  "trim_thresholds x0 x1 tz =
     rev (dropWhile (\<lambda>t. js_lt x1 t) (rev (dropWhile (\<lambda>t. js_le t x0) tz)))"

definition histogram :: "jsnum \<times> jsnum \<Rightarrow> jsnum list \<Rightarrow> jsnum list \<Rightarrow> bucket list" where
  "histogram ydomain ticks vals =
     (let x0 = fst ydomain; x1 = snd ydomain; tz = trim_thresholds x0 x1 ticks; m = length tz in
      map (\<lambda>i. \<lparr>b_x0 = (if 0 < i then tz ! (i - 1) else x0),
                b_x1 = (if i < m then tz ! i else x1),
                b_values = filter (\<lambda>x. js_le x0 x \<and> js_le x x1 \<and> bisectRight tz x 0 m = i) vals\<rparr>)
        [0..<m + 1])"

text \<open>A JavaScript \<open>Set\<close> (and the key order of a \<open>Map\<close>): first insertion fixes the place.\<close>

definition Set_add :: "'a list \<Rightarrow> 'a \<Rightarrow> 'a list" where
  "Set_add s k = (if k \<in> set s then s else s @ [k])"

text \<open>
  \<open>d3.rollup(values, reduce, key)\<close>: the values are grouped by key, the groups keep the
  order of the values and the keys the order of their first occurrence.
\<close>

definition rollup :: "'a list \<Rightarrow> ('a list \<Rightarrow> 'b) \<Rightarrow> ('a \<Rightarrow> 'k) \<Rightarrow> ('k \<times> 'b) list" where
  "rollup vals reduce key =
     map (\<lambda>k. (k, reduce (filter (\<lambda>v. key v = k) vals))) (foldl Set_add [] (map key vals))"

text \<open>
  \<open>initHistogramBins\<close>: \<open>ydomain\<close> is the y scale's domain and \<open>ticks\<close> its \<open>ticks(nBins)\<close>.
\<close>

definition initHistogramBins :: "jsnum \<times> jsnum \<Rightarrow> jsnum list \<Rightarrow> point list \<Rightarrow> (jsval \<times> bucket list) list" where
  "initHistogramBins ydomain ticks ps =
     rollup ps (\<lambda>p. histogram ydomain ticks (map p_value p)) p_type"

section \<open>Facts about the Map operations\<close>

lemma Map_keys_set: "set (Map_keys (Map_set k v t)) = insert k (set (Map_keys t))"
  by (induction t) (auto simp: Map_keys_def)

lemma Map_has_set: "Map_has (Map_set k v t) k' = (k' = k \<or> Map_has t k')"
  by (simp add: Map_has_def Map_keys_set)

lemma Map_has_delete: "Map_has (Map_delete k t) k' = (k' \<noteq> k \<and> Map_has t k')"
  by (auto simp: Map_has_def Map_keys_def Map_delete_def)

lemma Map_get_has: "Map_has t k \<Longrightarrow> \<exists>v. Map_get t k = JStr v"
proof -
  assume "Map_has t k"
  then have "k \<in> fst ` set t"
    by (simp add: Map_has_def Map_keys_def)
  then obtain v where "map_of t k = Some v"
    by (metis domD dom_map_of_conv_image_fst)
  then show ?thesis
    by (simp add: Map_get_def)
qed

lemma colors_updatePointColors [simp]: "colors (updatePointColors g) = colors g"
  by (simp add: updatePointColors_def)

lemma shapes_updatePointColors [simp]: "shapes (updatePointColors g) = shapes g"
  by (simp add: updatePointColors_def)

lemma colors_updatePointShapes [simp]: "colors (updatePointShapes g) = colors g"
  by (simp add: updatePointShapes_def)

lemma shapes_updatePointShapes [simp]: "shapes (updatePointShapes g) = shapes g"
  by (simp add: updatePointShapes_def)

section \<open>Facts about the scan\<close>

lemma find_keys: "find P (Map_keys t) = map_option fst (find (\<lambda>e. P (fst e)) t)"
  by (induction t) (auto simp: Map_keys_def)

lemma find_entry_get:
  "find (\<lambda>e. P (fst e)) t = Some e \<Longrightarrow> Map_get t (fst e) = JStr (snd e)"
proof (induction t)
  case Nil
  then show ?case by simp
next
  case (Cons a t)
  show ?case
  proof (cases "P (fst a)")
    case True
    with Cons.prems have "e = a" by simp
    then show ?thesis by (cases a) (simp add: Map_get_def)
  next
    case False
    with Cons.prems have found: "find (\<lambda>e. P (fst e)) t = Some e" by simp
    then have "P (fst e)" by (auto simp: find_Some_iff)
    with False have "fst a \<noteq> fst e" by auto
    with Cons.IH [OF found] show ?thesis by (cases a) (simp add: Map_get_def)
  qed
qed

lemma find_append_cases:
  "find P (xs @ ys) = (case find P xs of None \<Rightarrow> find P ys | Some x \<Rightarrow> Some x)"
  by (induction xs) auto

lemma Map_set_split:
  "Map_set k v t = takeWhile (\<lambda>e. fst e \<noteq> k) t @ (k, v) # tl (dropWhile (\<lambda>e. fst e \<noteq> k) t)"
  by (induction t) auto

lemma takeWhile_Map_set:
  "takeWhile (\<lambda>e. fst e \<noteq> k) (Map_set k v t) = takeWhile (\<lambda>e. fst e \<noteq> k) t"
  by (induction t) auto

lemma assignColor_entry:
  "p_color (assignColor t p) =
     (case find (\<lambda>e. Array_includes (Object_values (p\<lparr>p_color := Some (Map_get t ''Default'')\<rparr>)) (JStr (fst e))) t of
        None \<Rightarrow> Some (Map_get t ''Default'')
      | Some e \<Rightarrow> Some (JStr (snd e)))"
  by (auto simp: assignColor_def Let_def find_keys dest: find_entry_get split: option.splits)

lemma assignShape_entry:
  "p_shape (assignShape t p) =
     (case find (\<lambda>e. Array_includes (Object_values (p\<lparr>p_shape := Some (Map_get t ''Default'')\<rparr>)) (JStr (fst e))) t of
        None \<Rightarrow> Some (Map_get t ''Default'')
      | Some e \<Rightarrow> Some (JStr (snd e)))"
  by (auto simp: assignShape_def Let_def find_keys dest: find_entry_get split: option.splits)

lemma find_Map_set:
  "P k \<Longrightarrow> find (\<lambda>e. P (fst e)) (Map_set k v t) =
     (case find (\<lambda>e. P (fst e)) (takeWhile (\<lambda>e. fst e \<noteq> k) (Map_set k v t)) of
        None \<Rightarrow> Some (k, v) | Some e \<Rightarrow> Some e)"
  by (subst (1) Map_set_split) (simp add: find_append_cases takeWhile_Map_set split: option.splits)

lemma assignColor_defined:
  assumes "Map_has t ''Default''"
  shows "\<exists>c. p_color (assignColor t p) = Some (JStr c)"
proof (cases "find (\<lambda>e. Array_includes (Object_values (p\<lparr>p_color := Some (Map_get t ''Default'')\<rparr>)) (JStr (fst e))) t")
  case None
  with Map_get_has [OF assms] show ?thesis
    by (auto simp: assignColor_entry)
next
  case (Some e)
  then show ?thesis by (simp add: assignColor_entry)
qed

lemma assignShape_defined:
  assumes "Map_has t ''Default''"
  shows "\<exists>c. p_shape (assignShape t p) = Some (JStr c)"
proof (cases "find (\<lambda>e. Array_includes (Object_values (p\<lparr>p_shape := Some (Map_get t ''Default'')\<rparr>)) (JStr (fst e))) t")
  case None
  with Map_get_has [OF assms] show ?thesis
    by (auto simp: assignShape_entry)
next
  case (Some e)
  then show ?thesis by (simp add: assignShape_entry)
qed

lemma p_color_assignShape: "p_color (assignShape t p) = p_color p"
  by (simp add: assignShape_def Let_def split: option.splits)

lemma p_shape_assignColor: "p_shape (assignColor t p) = p_shape p"
  by (simp add: assignColor_def Let_def split: option.splits)

section \<open>Rules and their precedence\<close>

text \<open>
  C1, as amended. \<open>modalOK\<close> adds the rule with \<open>set(K, V)\<close> on the colour table (or on the shape
  table) and resolves every point again. For either table: after \<open>set(K, V)\<close>, the value
  given to a point that has \<open>K\<close> among its own-property values is \<open>V\<close>, unless an entry
  that stands before \<open>K\<close> in the table's order has a key among those values; then it is
  the value of the first such entry. The own-property values are those the scan reads: the
  slot being resolved holds the Default entry's value at that moment.
\<close>

theorem first_match_wins:
  "colors (modalOK ''Color'' K V g) = Map_set K V (colors g)
   \<and> data (modalOK ''Color'' K V g) = map (assignColor (Map_set K V (colors g))) (data g)
   \<and> (ty \<noteq> ''Color'' \<longrightarrow>
        shapes (modalOK ty K V g) = Map_set K V (shapes g)
        \<and> data (modalOK ty K V g) = map (assignShape (Map_set K V (shapes g))) (data g))
   \<and> (Array_includes (Object_values (p\<lparr>p_color := Some (Map_get (Map_set K V t) ''Default'')\<rparr>)) (JStr K) \<longrightarrow>
     p_color (assignColor (Map_set K V t) p) =
       (case find (\<lambda>e. Array_includes
                    (Object_values (p\<lparr>p_color := Some (Map_get (Map_set K V t) ''Default'')\<rparr>))
                    (JStr (fst e)))
               (takeWhile (\<lambda>e. fst e \<noteq> K) (Map_set K V t)) of
          None \<Rightarrow> Some (JStr V)
        | Some e \<Rightarrow> Some (JStr (snd e))))
   \<and> (Array_includes (Object_values (p\<lparr>p_shape := Some (Map_get (Map_set K V t) ''Default'')\<rparr>)) (JStr K) \<longrightarrow>
     p_shape (assignShape (Map_set K V t) p) =
       (case find (\<lambda>e. Array_includes
                    (Object_values (p\<lparr>p_shape := Some (Map_get (Map_set K V t) ''Default'')\<rparr>))
                    (JStr (fst e)))
               (takeWhile (\<lambda>e. fst e \<noteq> K) (Map_set K V t)) of
          None \<Rightarrow> Some (JStr V)
        | Some e \<Rightarrow> Some (JStr (snd e))))"
proof (intro conjI impI)
  show "colors (modalOK ''Color'' K V g) = Map_set K V (colors g)"
    by (simp add: modalOK_def)
  show "data (modalOK ''Color'' K V g) = map (assignColor (Map_set K V (colors g))) (data g)"
    by (simp add: modalOK_def updatePointColors_def)
  show "shapes (modalOK ty K V g) = Map_set K V (shapes g)" if "ty \<noteq> ''Color''"
    using that by (simp add: modalOK_def)
  show "data (modalOK ty K V g) = map (assignShape (Map_set K V (shapes g))) (data g)"
    if "ty \<noteq> ''Color''"
    using that by (simp add: modalOK_def updatePointShapes_def)
next
  let ?t = "Map_set K V t"
  let ?Pc = "\<lambda>k. Array_includes (Object_values (p\<lparr>p_color := Some (Map_get ?t ''Default'')\<rparr>)) (JStr k)"
  let ?Ps = "\<lambda>k. Array_includes (Object_values (p\<lparr>p_shape := Some (Map_get ?t ''Default'')\<rparr>)) (JStr k)"
  {
    assume "?Pc K"
    then have "find (\<lambda>e. ?Pc (fst e)) ?t =
        (case find (\<lambda>e. ?Pc (fst e)) (takeWhile (\<lambda>e. fst e \<noteq> K) ?t) of
           None \<Rightarrow> Some (K, V) | Some e \<Rightarrow> Some e)"
      by (rule find_Map_set [where P = ?Pc])
    then show "p_color (assignColor ?t p) =
       (case find (\<lambda>e. ?Pc (fst e)) (takeWhile (\<lambda>e. fst e \<noteq> K) ?t) of
          None \<Rightarrow> Some (JStr V) | Some e \<Rightarrow> Some (JStr (snd e)))"
      by (simp add: assignColor_entry split: option.splits)
  }
  {
    assume "?Ps K"
    then have "find (\<lambda>e. ?Ps (fst e)) ?t =
        (case find (\<lambda>e. ?Ps (fst e)) (takeWhile (\<lambda>e. fst e \<noteq> K) ?t) of
           None \<Rightarrow> Some (K, V) | Some e \<Rightarrow> Some e)"
      by (rule find_Map_set [where P = ?Ps])
    then show "p_shape (assignShape ?t p) =
       (case find (\<lambda>e. ?Ps (fst e)) (takeWhile (\<lambda>e. fst e \<noteq> K) ?t) of
          None \<Rightarrow> Some (JStr V) | Some e \<Rightarrow> Some (JStr (snd e)))"
      by (simp add: assignShape_entry split: option.splits)
  }
qed

theorem first_match_wins_witness:
  "Array_includes
     (Object_values
        (\<lparr>p_symbol = JStr ''ABC'', p_primaryAccession = JStr ''P12345'',
          p_organism = JStr ''Homo sapiens'', p_value = Fin 5, p_type = JStr ''IC50'',
          p_unit = JStr ''nM'', p_x = None, p_y = None, p_color = None, p_shape = None\<rparr>
         \<lparr>p_color := Some (Map_get (Map_set ''IC50'' ''#0000ff''
              [(''Default'', ''#C0C0C0''), (''P12345'', ''#ff0000'')]) ''Default'')\<rparr>))
     (JStr ''IC50'')
   \<and> p_color (assignColor (Map_set ''IC50'' ''#0000ff''
            [(''Default'', ''#C0C0C0''), (''P12345'', ''#ff0000'')])
          \<lparr>p_symbol = JStr ''ABC'', p_primaryAccession = JStr ''P12345'',
           p_organism = JStr ''Homo sapiens'', p_value = Fin 5, p_type = JStr ''IC50'',
           p_unit = JStr ''nM'', p_x = None, p_y = None, p_color = None, p_shape = None\<rparr>)
       = Some (JStr ''#ff0000'')
   \<and> p_color (assignColor (Map_set ''IC50'' ''#0000ff'' [(''Default'', ''#C0C0C0'')])
          \<lparr>p_symbol = JStr ''ABC'', p_primaryAccession = JStr ''P12345'',
           p_organism = JStr ''Homo sapiens'', p_value = Fin 5, p_type = JStr ''IC50'',
           p_unit = JStr ''nM'', p_x = None, p_y = None, p_color = None, p_shape = None\<rparr>)
       = Some (JStr ''#0000ff'')"
  using first_match_wins [where p =
      "\<lparr>p_symbol = JStr ''ABC'', p_primaryAccession = JStr ''P12345'',
        p_organism = JStr ''Homo sapiens'', p_value = Fin 5, p_type = JStr ''IC50'',
        p_unit = JStr ''nM'', p_x = None, p_y = None, p_color = None, p_shape = None\<rparr>"
      and K = "''IC50''" and V = "''#0000ff''"
      and t = "[(''Default'', ''#C0C0C0''), (''P12345'', ''#ff0000'')]"]
    first_match_wins [where p =
      "\<lparr>p_symbol = JStr ''ABC'', p_primaryAccession = JStr ''P12345'',
        p_organism = JStr ''Homo sapiens'', p_value = Fin 5, p_type = JStr ''IC50'',
        p_unit = JStr ''nM'', p_x = None, p_y = None, p_color = None, p_shape = None\<rparr>"
      and K = "''IC50''" and V = "''#0000ff''" and t = "[(''Default'', ''#C0C0C0'')]"]
  by (simp add: Array_includes_def Object_values_def Map_get_def)

text \<open>
  The claim as first stated, over the point's own values as they are before the scan,
  fails. The table holds a rule keyed by the default colour \<open>#C0C0C0\<close>; a rule for
  \<open>IC50\<close> is added. The point has \<open>IC50\<close> among its values and no earlier key among them,
  both when it has no colour yet and when it has the colour \<open>#ff0000\<close> that the table
  gave it before; yet it gets \<open>#ff0000\<close>, the value of the rule keyed \<open>#C0C0C0\<close>, which
  matches the Default colour that the scan has just put into the slot.
\<close>

theorem first_match_wins_counterexample:
  "Array_includes (Object_values
       \<lparr>p_symbol = JStr ''ABC'', p_primaryAccession = JStr ''P12345'',
        p_organism = JStr ''Homo sapiens'', p_value = Fin 5, p_type = JStr ''IC50'',
        p_unit = JStr ''nM'', p_x = None, p_y = None, p_color = None, p_shape = None\<rparr>) (JStr ''IC50'')
   \<and> find (\<lambda>e. Array_includes (Object_values
       \<lparr>p_symbol = JStr ''ABC'', p_primaryAccession = JStr ''P12345'',
        p_organism = JStr ''Homo sapiens'', p_value = Fin 5, p_type = JStr ''IC50'',
        p_unit = JStr ''nM'', p_x = None, p_y = None, p_color = None, p_shape = None\<rparr>) (JStr (fst e)))
        (takeWhile (\<lambda>e. fst e \<noteq> ''IC50'') (Map_set ''IC50'' ''#0000ff'' [(''Default'', ''#C0C0C0''), (''#C0C0C0'', ''#ff0000'')])) = None
   \<and> p_color (assignColor (Map_set ''IC50'' ''#0000ff'' [(''Default'', ''#C0C0C0''), (''#C0C0C0'', ''#ff0000'')])
       \<lparr>p_symbol = JStr ''ABC'', p_primaryAccession = JStr ''P12345'',
        p_organism = JStr ''Homo sapiens'', p_value = Fin 5, p_type = JStr ''IC50'',
        p_unit = JStr ''nM'', p_x = None, p_y = None, p_color = None, p_shape = None\<rparr>) = Some (JStr ''#ff0000'')
   \<and> Array_includes (Object_values
       \<lparr>p_symbol = JStr ''ABC'', p_primaryAccession = JStr ''P12345'',
        p_organism = JStr ''Homo sapiens'', p_value = Fin 5, p_type = JStr ''IC50'',
        p_unit = JStr ''nM'', p_x = Some (Fin 160), p_y = Some (Fin 200),
        p_color = Some (JStr ''#ff0000''), p_shape = Some (JStr ''Circle'')\<rparr>) (JStr ''IC50'')
   \<and> find (\<lambda>e. Array_includes (Object_values
       \<lparr>p_symbol = JStr ''ABC'', p_primaryAccession = JStr ''P12345'',
        p_organism = JStr ''Homo sapiens'', p_value = Fin 5, p_type = JStr ''IC50'',
        p_unit = JStr ''nM'', p_x = Some (Fin 160), p_y = Some (Fin 200),
        p_color = Some (JStr ''#ff0000''), p_shape = Some (JStr ''Circle'')\<rparr>) (JStr (fst e)))
        (takeWhile (\<lambda>e. fst e \<noteq> ''IC50'') (Map_set ''IC50'' ''#0000ff'' [(''Default'', ''#C0C0C0''), (''#C0C0C0'', ''#ff0000'')])) = None
   \<and> p_color (assignColor (Map_set ''IC50'' ''#0000ff'' [(''Default'', ''#C0C0C0''), (''#C0C0C0'', ''#ff0000'')])
       \<lparr>p_symbol = JStr ''ABC'', p_primaryAccession = JStr ''P12345'',
        p_organism = JStr ''Homo sapiens'', p_value = Fin 5, p_type = JStr ''IC50'',
        p_unit = JStr ''nM'', p_x = Some (Fin 160), p_y = Some (Fin 200),
        p_color = Some (JStr ''#ff0000''), p_shape = Some (JStr ''Circle'')\<rparr>) = Some (JStr ''#ff0000'')
   \<and> JStr ''#ff0000'' \<noteq> JStr ''#0000ff''"
  by (simp add: assignColor_def Array_includes_def Object_values_def Map_get_def Map_keys_def)

section \<open>Removing the Default row\<close>

text \<open>
  C2. In both tables, closing the row keyed \<open>Default\<close> changes nothing: the state is
  returned as it is, so the table's size and the Default entry's value are unchanged, and
  the handler has no failing branch. Every edit (a rule added through the dialog, a row
  closed) keeps the Default entry in the table it edits and in the other one.
\<close>

theorem remove_Default_noop:
  "colorRowClose ''Default'' g = g \<and> shapeRowClose ''Default'' g = g
   \<and> length (colors (colorRowClose ''Default'' g)) = length (colors g)
   \<and> Map_get (colors (colorRowClose ''Default'' g)) ''Default'' = Map_get (colors g) ''Default''
   \<and> length (shapes (shapeRowClose ''Default'' g)) = length (shapes g)
   \<and> Map_get (shapes (shapeRowClose ''Default'' g)) ''Default'' = Map_get (shapes g) ''Default''
   \<and> (Map_has (colors g) ''Default'' \<longrightarrow>
        Map_has (colors (colorRowClose key g)) ''Default''
        \<and> Map_has (colors (shapeRowClose key g)) ''Default''
        \<and> Map_has (colors (modalOK ty val upd g)) ''Default'')
   \<and> (Map_has (shapes g) ''Default'' \<longrightarrow>
        Map_has (shapes (shapeRowClose key g)) ''Default''
        \<and> Map_has (shapes (colorRowClose key g)) ''Default''
        \<and> Map_has (shapes (modalOK ty val upd g)) ''Default'')"
  by (simp add: colorRowClose_def shapeRowClose_def modalOK_def Map_has_set Map_has_delete)

theorem remove_Default_noop_witness:
  "Map_has (colors \<lparr>colors = [(''Default'', ''#C0C0C0''), (''IC50'', ''#ff0000'')],
                    shapes = [(''Default'', ''Circle'')], data = []\<rparr>) ''Default''
   \<and> Map_has (shapes \<lparr>colors = [(''Default'', ''#C0C0C0''), (''IC50'', ''#ff0000'')],
                      shapes = [(''Default'', ''Circle'')], data = []\<rparr>) ''Default''
   \<and> colors (colorRowClose ''IC50'' \<lparr>colors = [(''Default'', ''#C0C0C0''), (''IC50'', ''#ff0000'')],
                      shapes = [(''Default'', ''Circle'')], data = []\<rparr>)
       = [(''Default'', ''#C0C0C0'')]
   \<and> Map_has (colors (modalOK ''Color'' ''Default'' ''#000000''
         \<lparr>colors = [(''Default'', ''#C0C0C0''), (''IC50'', ''#ff0000'')],
          shapes = [(''Default'', ''Circle'')], data = []\<rparr>)) ''Default''"
  using remove_Default_noop [of "\<lparr>colors = [(''Default'', ''#C0C0C0''), (''IC50'', ''#ff0000'')],
      shapes = [(''Default'', ''Circle'')], data = []\<rparr>" "''IC50''" "''Color''" "''Default''" "''#000000''"]
  by (simp add: Map_has_def Map_keys_def colorRowClose_def updatePointColors_def Map_delete_def)

section \<open>Every point gets a colour and a shape\<close>

text \<open>
  C3. When both tables hold a Default entry, every point of the set has a colour and a
  shape that are strings (not \<open>undefined\<close>) once \<open>updatePointColors\<close> and
  \<open>updatePointShapes\<close> have run.
\<close>

theorem resolved_defined:
  assumes "Map_has (colors g) ''Default''" and "Map_has (shapes g) ''Default''"
  shows "\<forall>p \<in> set (data (updatePointShapes (updatePointColors g))).
           (\<exists>c. p_color p = Some (JStr c)) \<and> (\<exists>s. p_shape p = Some (JStr s))"
proof
  fix p
  assume "p \<in> set (data (updatePointShapes (updatePointColors g)))"
  then obtain q where p: "p = assignShape (shapes g) (assignColor (colors g) q)"
    by (auto simp: updatePointShapes_def updatePointColors_def)
  have "\<exists>c. p_color p = Some (JStr c)"
    unfolding p p_color_assignShape using assms(1) by (rule assignColor_defined)
  moreover have "\<exists>s. p_shape p = Some (JStr s)"
    unfolding p using assms(2) by (rule assignShape_defined)
  ultimately show "(\<exists>c. p_color p = Some (JStr c)) \<and> (\<exists>s. p_shape p = Some (JStr s))" ..
qed

theorem resolved_defined_witness:
  "Map_has (colors \<lparr>colors = [(''Default'', ''#C0C0C0'')], shapes = [(''Default'', ''Circle'')],
       data = [\<lparr>p_symbol = JStr ''ABC'', p_primaryAccession = JStr ''P12345'',
          p_organism = JStr ''Homo sapiens'', p_value = Fin 5, p_type = JStr ''IC50'',
          p_unit = JStr ''nM'', p_x = None, p_y = None, p_color = None, p_shape = None\<rparr>]\<rparr>) ''Default''
   \<and> Map_has (shapes \<lparr>colors = [(''Default'', ''#C0C0C0'')], shapes = [(''Default'', ''Circle'')],
       data = [\<lparr>p_symbol = JStr ''ABC'', p_primaryAccession = JStr ''P12345'',
          p_organism = JStr ''Homo sapiens'', p_value = Fin 5, p_type = JStr ''IC50'',
          p_unit = JStr ''nM'', p_x = None, p_y = None, p_color = None, p_shape = None\<rparr>]\<rparr>) ''Default''
   \<and> (\<exists>c. p_color (hd (data (updatePointShapes (updatePointColors
         \<lparr>colors = [(''Default'', ''#C0C0C0'')], shapes = [(''Default'', ''Circle'')],
          data = [\<lparr>p_symbol = JStr ''ABC'', p_primaryAccession = JStr ''P12345'',
            p_organism = JStr ''Homo sapiens'', p_value = Fin 5, p_type = JStr ''IC50'',
            p_unit = JStr ''nM'', p_x = None, p_y = None, p_color = None, p_shape = None\<rparr>]\<rparr>)))) = Some (JStr c))
   \<and> (\<exists>s. p_shape (hd (data (updatePointShapes (updatePointColors
         \<lparr>colors = [(''Default'', ''#C0C0C0'')], shapes = [(''Default'', ''Circle'')],
          data = [\<lparr>p_symbol = JStr ''ABC'', p_primaryAccession = JStr ''P12345'',
            p_organism = JStr ''Homo sapiens'', p_value = Fin 5, p_type = JStr ''IC50'',
            p_unit = JStr ''nM'', p_x = None, p_y = None, p_color = None, p_shape = None\<rparr>]\<rparr>)))) = Some (JStr s))"
  using resolved_defined [of "\<lparr>colors = [(''Default'', ''#C0C0C0'')], shapes = [(''Default'', ''Circle'')],
       data = [\<lparr>p_symbol = JStr ''ABC'', p_primaryAccession = JStr ''P12345'',
          p_organism = JStr ''Homo sapiens'', p_value = Fin 5, p_type = JStr ''IC50'',
          p_unit = JStr ''nM'', p_x = None, p_y = None, p_color = None, p_shape = None\<rparr>]\<rparr>"]
  by (simp add: Map_has_def Map_keys_def updatePointShapes_def updatePointColors_def)

section \<open>What the scan compares\<close>

lemma assignColor_keys:
  "p_color (assignColor t p) =
     (case find (\<lambda>k. JStr k \<in> set (Object_values (p\<lparr>p_color := Some (Map_get t ''Default'')\<rparr>)))
             (Map_keys t) of
        None \<Rightarrow> Some (Map_get t ''Default'')
      | Some k \<Rightarrow> Some (Map_get t k))"
  by (simp add: assignColor_def Let_def Array_includes_def split: option.splits)

lemma assignShape_keys:
  "p_shape (assignShape t p) =
     (case find (\<lambda>k. JStr k \<in> set (Object_values (p\<lparr>p_shape := Some (Map_get t ''Default'')\<rparr>)))
             (Map_keys t) of
        None \<Rightarrow> Some (Map_get t ''Default'')
      | Some k \<Rightarrow> Some (Map_get t k))"
  by (simp add: assignShape_def Let_def Array_includes_def split: option.splits)

lemma Object_values_set:
  "set (Object_values p) =
     {p_symbol p, p_primaryAccession p, p_organism p, JNum (p_value p), p_type p, p_unit p}
     \<union> JNum ` set_option (p_x p) \<union> JNum ` set_option (p_y p)
     \<union> set_option (p_color p) \<union> set_option (p_shape p)"
  by (cases "p_x p"; cases "p_y p"; cases "p_color p"; cases "p_shape p")
     (auto simp: Object_values_def)

text \<open>
  C10. The scan walks every key of the table, \<open>Default\<close> included, and compares it with
  every own-property value of the point: the six loaded fields, \<open>x\<close>, \<open>y\<close>, the colour
  and the shape. So a point none of whose symbol, accession, organism and type is a key
  is still matched by a rule keyed by the default colour \<open>#C0C0C0\<close>, or by a colour rule
  keyed \<open>Circle\<close> once its shape is \<open>Circle\<close>; and a point whose symbol is \<open>Default\<close>
  is matched by the Default entry before a later rule for its type.
\<close>

theorem scan_reads_every_own_value:
  "p_color (assignColor t p) =
     (case find (\<lambda>k. JStr k \<in> set (Object_values (p\<lparr>p_color := Some (Map_get t ''Default'')\<rparr>)))
             (Map_keys t) of
        None \<Rightarrow> Some (Map_get t ''Default'')
      | Some k \<Rightarrow> Some (Map_get t k))
   \<and> p_shape (assignShape t p) =
     (case find (\<lambda>k. JStr k \<in> set (Object_values (p\<lparr>p_shape := Some (Map_get t ''Default'')\<rparr>)))
             (Map_keys t) of
        None \<Rightarrow> Some (Map_get t ''Default'')
      | Some k \<Rightarrow> Some (Map_get t k))
   \<and> set (Object_values p) =
     {p_symbol p, p_primaryAccession p, p_organism p, JNum (p_value p), p_type p, p_unit p}
     \<union> JNum ` set_option (p_x p) \<union> JNum ` set_option (p_y p)
     \<union> set_option (p_color p) \<union> set_option (p_shape p)
   \<and> list_all (\<lambda>k. JStr k \<notin> set [JStr ''ABC'', JStr ''P12345'', JStr ''Homo sapiens'', JStr ''IC50''])
        [''Default'', ''#C0C0C0'', ''Circle'']
   \<and> p_color (assignColor [(''Default'', ''#C0C0C0''), (''#C0C0C0'', ''#ff0000'')]
        \<lparr>p_symbol = JStr ''ABC'', p_primaryAccession = JStr ''P12345'',
         p_organism = JStr ''Homo sapiens'', p_value = Fin 5, p_type = JStr ''IC50'',
         p_unit = JStr ''nM'', p_x = None, p_y = None, p_color = None, p_shape = None\<rparr>)
       = Some (JStr ''#ff0000'')
   \<and> p_color (assignColor [(''Default'', ''#C0C0C0''), (''Circle'', ''#00ff00'')]
        \<lparr>p_symbol = JStr ''ABC'', p_primaryAccession = JStr ''P12345'',
         p_organism = JStr ''Homo sapiens'', p_value = Fin 5, p_type = JStr ''IC50'',
         p_unit = JStr ''nM'', p_x = Some (Fin 160), p_y = Some (Fin 200),
         p_color = Some (JStr ''#C0C0C0''), p_shape = Some (JStr ''Circle'')\<rparr>)
       = Some (JStr ''#00ff00'')
   \<and> p_color (assignColor [(''Default'', ''#C0C0C0''), (''IC50'', ''#ff0000'')]
        \<lparr>p_symbol = JStr ''Default'', p_primaryAccession = JStr ''P12345'',
         p_organism = JStr ''Homo sapiens'', p_value = Fin 5, p_type = JStr ''IC50'',
         p_unit = JStr ''nM'', p_x = None, p_y = None, p_color = None, p_shape = None\<rparr>)
       = Some (JStr ''#C0C0C0'')"
proof (intro conjI)
  show "p_color (assignColor t p) =
     (case find (\<lambda>k. JStr k \<in> set (Object_values (p\<lparr>p_color := Some (Map_get t ''Default'')\<rparr>)))
             (Map_keys t) of
        None \<Rightarrow> Some (Map_get t ''Default'')
      | Some k \<Rightarrow> Some (Map_get t k))"
    by (rule assignColor_keys)
  show "p_shape (assignShape t p) =
     (case find (\<lambda>k. JStr k \<in> set (Object_values (p\<lparr>p_shape := Some (Map_get t ''Default'')\<rparr>)))
             (Map_keys t) of
        None \<Rightarrow> Some (Map_get t ''Default'')
      | Some k \<Rightarrow> Some (Map_get t k))"
    by (rule assignShape_keys)
  show "set (Object_values p) =
     {p_symbol p, p_primaryAccession p, p_organism p, JNum (p_value p), p_type p, p_unit p}
     \<union> JNum ` set_option (p_x p) \<union> JNum ` set_option (p_y p)
     \<union> set_option (p_color p) \<union> set_option (p_shape p)"
    by (rule Object_values_set)
qed (simp_all add: assignColor_keys Object_values_def Map_keys_def Map_get_def)

section \<open>Loading\<close>

lemma mkPoint_organism:
  "pr_organism (tp_protein p) \<noteq> None \<Longrightarrow> mkPoint p a = Inr (pointOf p a)"
  by (auto simp: mkPoint_def)

lemma pushActivities_organism:
  "pr_organism (tp_protein p) \<noteq> None \<Longrightarrow>
     pushActivities p as points = Inr (points @ map (pointOf p) as)"
  by (induction as arbitrary: points) (simp_all add: mkPoint_organism)

lemma pushActivities_no_organism:
  "pr_organism (tp_protein p) = None \<Longrightarrow>
     pushActivities p as points = (if as = [] then Inr points else Inl TypeError)"
  by (cases as) (simp_all add: mkPoint_def)

lemma loadProteins_organism:
  "list_all (\<lambda>p. pr_organism (tp_protein p) \<noteq> None) ps \<Longrightarrow>
     loadProteins ps points =
       Inr (points @ concat (map (\<lambda>p. map (pointOf p) (tp_activities p)) ps))"
  by (induction ps arbitrary: points) (simp_all add: pushActivities_organism)

lemma loadProteins_fails_iff:
  "(loadProteins ps points = Inl TypeError) =
     (\<exists>p \<in> set ps. pr_organism (tp_protein p) = None \<and> tp_activities p \<noteq> [])"
proof (induction ps arbitrary: points)
  case Nil
  then show ?case by simp
next
  case (Cons p ps)
  show ?case
  proof (cases "pr_organism (tp_protein p) = None")
    case True
    then show ?thesis
      by (simp add: pushActivities_no_organism Cons.IH)
  next
    case False
    then show ?thesis
      by (auto simp: pushActivities_organism Cons.IH)
  qed
qed

lemma loadData_fails_iff:
  "(loadData proteins = Inl TypeError) =
     (\<exists>p \<in> set proteins. pr_organism (tp_protein p) = None \<and> tp_activities p \<noteq> [])"
  by (simp add: loadData_def loadProteins_fails_iff)

text \<open>
  C4, as amended. When every protein descriptor carries an organism, \<open>loadData\<close> returns
  one point per protein and activity, proteins in order and each protein's activities in
  order, with the raw fields copied and \<open>x\<close>, \<open>y\<close>, \<open>color\<close>, \<open>shape\<close> not yet created;
  and the result is empty exactly when no protein has an activity.
\<close>

theorem loadData_points:
  assumes "list_all (\<lambda>p. pr_organism (tp_protein p) \<noteq> None) proteins"
  shows "loadData proteins =
           Inr (concat (map (\<lambda>p. map (\<lambda>a.
             \<lparr>p_symbol = pr_symbol (tp_protein p),
              p_primaryAccession = pr_primaryAccession (tp_protein p),
              p_organism = o_name (the (pr_organism (tp_protein p))),
              p_value = a_conc a, p_type = a_type a, p_unit = a_unit a,
              p_x = None, p_y = None, p_color = None, p_shape = None\<rparr>) (tp_activities p)) proteins))
         \<and> (loadData proteins = Inr []) = list_all (\<lambda>p. tp_activities p = []) proteins"
proof -
  have eq: "loadData proteins = Inr (concat (map (\<lambda>p. map (pointOf p) (tp_activities p)) proteins))"
    using loadProteins_organism [OF assms, of "[]"] by (simp add: loadData_def)
  have "(concat (map (\<lambda>p. map (pointOf p) (tp_activities p)) proteins) = [])
          = list_all (\<lambda>p. tp_activities p = []) proteins"
    by (induction proteins) simp_all
  with eq show ?thesis by simp
qed

theorem loadData_points_witness:
  "list_all (\<lambda>p. pr_organism (tp_protein p) \<noteq> None)
     [\<lparr>tp_protein = \<lparr>pr_symbol = JStr ''A'', pr_primaryAccession = JStr ''P1'',
                       pr_organism = Some \<lparr>o_name = JStr ''Homo sapiens''\<rparr>\<rparr>,
       tp_activities = [\<lparr>a_type = JStr ''IC50'', a_conc = Fin 5, a_relation = JStr ''='',
                         a_unit = JStr ''nM''\<rparr>]\<rparr>,
      \<lparr>tp_protein = \<lparr>pr_symbol = JStr ''B'', pr_primaryAccession = JStr ''P2'',
                       pr_organism = Some \<lparr>o_name = JStr ''Mus musculus''\<rparr>\<rparr>,
       tp_activities = [\<lparr>a_type = JStr ''IC50'', a_conc = Fin 50, a_relation = JStr ''='',
                         a_unit = JUndefined\<rparr>]\<rparr>]
   \<and> loadData
     [\<lparr>tp_protein = \<lparr>pr_symbol = JStr ''A'', pr_primaryAccession = JStr ''P1'',
                       pr_organism = Some \<lparr>o_name = JStr ''Homo sapiens''\<rparr>\<rparr>,
       tp_activities = [\<lparr>a_type = JStr ''IC50'', a_conc = Fin 5, a_relation = JStr ''='',
                         a_unit = JStr ''nM''\<rparr>]\<rparr>,
      \<lparr>tp_protein = \<lparr>pr_symbol = JStr ''B'', pr_primaryAccession = JStr ''P2'',
                       pr_organism = Some \<lparr>o_name = JStr ''Mus musculus''\<rparr>\<rparr>,
       tp_activities = [\<lparr>a_type = JStr ''IC50'', a_conc = Fin 50, a_relation = JStr ''='',
                         a_unit = JUndefined\<rparr>]\<rparr>]
     = Inr [\<lparr>p_symbol = JStr ''A'', p_primaryAccession = JStr ''P1'',
             p_organism = JStr ''Homo sapiens'', p_value = Fin 5, p_type = JStr ''IC50'',
             p_unit = JStr ''nM'', p_x = None, p_y = None, p_color = None, p_shape = None\<rparr>,
            \<lparr>p_symbol = JStr ''B'', p_primaryAccession = JStr ''P2'',
             p_organism = JStr ''Mus musculus'', p_value = Fin 50, p_type = JStr ''IC50'',
             p_unit = JUndefined, p_x = None, p_y = None, p_color = None, p_shape = None\<rparr>]"
  using loadData_points [of
     "[\<lparr>tp_protein = \<lparr>pr_symbol = JStr ''A'', pr_primaryAccession = JStr ''P1'',
                       pr_organism = Some \<lparr>o_name = JStr ''Homo sapiens''\<rparr>\<rparr>,
       tp_activities = [\<lparr>a_type = JStr ''IC50'', a_conc = Fin 5, a_relation = JStr ''='',
                         a_unit = JStr ''nM''\<rparr>]\<rparr>,
      \<lparr>tp_protein = \<lparr>pr_symbol = JStr ''B'', pr_primaryAccession = JStr ''P2'',
                       pr_organism = Some \<lparr>o_name = JStr ''Mus musculus''\<rparr>\<rparr>,
       tp_activities = [\<lparr>a_type = JStr ''IC50'', a_conc = Fin 50, a_relation = JStr ''='',
                         a_unit = JUndefined\<rparr>]\<rparr>]"]
  by simp

text \<open>
  The claim as first stated fails: a protein without activities gives an empty point set
  from an input that is not empty.
\<close>

theorem loadData_empty_counterexample:
  "\<not> (loadData [\<lparr>tp_protein = \<lparr>pr_symbol = JStr ''A'', pr_primaryAccession = JStr ''P1'',
                                pr_organism = Some \<lparr>o_name = JStr ''Homo sapiens''\<rparr>\<rparr>,
                  tp_activities = []\<rparr>] = Inr []
       \<longrightarrow> [\<lparr>tp_protein = \<lparr>pr_symbol = JStr ''A'', pr_primaryAccession = JStr ''P1'',
                                pr_organism = Some \<lparr>o_name = JStr ''Homo sapiens''\<rparr>\<rparr>,
             tp_activities = []\<rparr>] = [])"
  by (simp add: loadData_def)

text \<open>
  C5. The claim asks that a protein descriptor without an organism, or an activity without
  a unit, still yields its point. \<open>loadData\<close> reads \<open>p.protein.organism.name\<close>
  unguarded, so for a protein without an organism and with an activity it throws a
  TypeError; an activity without a unit yields its point, with \<open>undefined\<close> for the unit.
\<close>

theorem loadData_missing_organism_throws:
  "loadData [\<lparr>tp_protein = \<lparr>pr_symbol = JStr ''A'', pr_primaryAccession = JStr ''P1'',
                            pr_organism = None\<rparr>,
              tp_activities = [\<lparr>a_type = JStr ''IC50'', a_conc = Fin 5, a_relation = JStr ''='',
                                a_unit = JStr ''nM''\<rparr>]\<rparr>] = Inl TypeError
   \<and> loadData [\<lparr>tp_protein = \<lparr>pr_symbol = JStr ''A'', pr_primaryAccession = JStr ''P1'',
                            pr_organism = Some \<lparr>o_name = JStr ''Homo sapiens''\<rparr>\<rparr>,
              tp_activities = [\<lparr>a_type = JStr ''IC50'', a_conc = Fin 5, a_relation = JStr ''='',
                                a_unit = JUndefined\<rparr>]\<rparr>]
       = Inr [\<lparr>p_symbol = JStr ''A'', p_primaryAccession = JStr ''P1'',
               p_organism = JStr ''Homo sapiens'', p_value = Fin 5, p_type = JStr ''IC50'',
               p_unit = JUndefined, p_x = None, p_y = None, p_color = None, p_shape = None\<rparr>]"
  by (simp add: loadData_def mkPoint_def)

section \<open>Layout\<close>

lemma positions_no_jitter:
  "positions False violin X bandwidth Y rnd n ds =
     map (\<lambda>d. d\<lparr>p_x := Some (Fin (X (p_type d) + bandwidth / 2)), p_y := Some (Y (p_value d))\<rparr>) ds"
  by (induction ds) (simp_all add: dx_of_def)

lemma positions_length: "length (positions jitter violin X bandwidth Y rnd n ds) = length ds"
  by (induction ds arbitrary: n) simp_all

lemma positions_jitter_nth:
  "i < length ds \<Longrightarrow>
     positions True violin X bandwidth Y rnd n ds ! i =
       (ds ! i)\<lparr>p_x := Some (Fin (X (p_type (ds ! i)) + dx_of True violin (bandwidth / 4) (rnd (n + i)))),
                p_y := Some (Y (p_value (ds ! i)))\<rparr>"
proof (induction ds arbitrary: n i)
  case Nil
  then show ?case by simp
next
  case (Cons d ds)
  show ?case
  proof (cases i)
    case 0
    then show ?thesis by simp
  next
    case (Suc j)
    with Cons.prems have "j < length ds" by simp
    from Cons.IH [OF this, of "Suc n"] Suc show ?thesis by simp
  qed
qed

text \<open>
  C8. With jitter and violin both off, every point gets the x of its type's band centre
  (the band's start plus half the bandwidth), so two points of the same type get the
  same x.
\<close>

theorem no_jitter_band_center:
  "data (updatePointPositions False False X bandwidth Y rnd g) =
     map (\<lambda>d. d\<lparr>p_x := Some (Fin (X (p_type d) + bandwidth / 2)), p_y := Some (Y (p_value d))\<rparr>) (data g)
   \<and> (\<forall>p \<in> set (data (updatePointPositions False False X bandwidth Y rnd g)).
        p_x p = Some (Fin (X (p_type p) + bandwidth / 2))
        \<and> (\<forall>q \<in> set (data (updatePointPositions False False X bandwidth Y rnd g)).
              p_type p = p_type q \<longrightarrow> p_x p = p_x q))"
  by (auto simp: updatePointPositions_def positions_no_jitter)

theorem no_jitter_band_center_witness:
  "map p_x (data (updatePointPositions False False (\<lambda>t. 8) 304 (\<lambda>v. v) (\<lambda>n. 0)
      \<lparr>colors = [(''Default'', ''#C0C0C0'')], shapes = [(''Default'', ''Circle'')],
       data = [\<lparr>p_symbol = JStr ''A'', p_primaryAccession = JStr ''P1'',
                p_organism = JStr ''Homo sapiens'', p_value = Fin 5, p_type = JStr ''IC50'',
                p_unit = JStr ''nM'', p_x = None, p_y = None, p_color = None, p_shape = None\<rparr>,
               \<lparr>p_symbol = JStr ''B'', p_primaryAccession = JStr ''P2'',
                p_organism = JStr ''Mus musculus'', p_value = Fin 50, p_type = JStr ''IC50'',
                p_unit = JStr ''nM'', p_x = None, p_y = None, p_color = None, p_shape = None\<rparr>]\<rparr>))
   = [Some (Fin 160), Some (Fin 160)]"
  using no_jitter_band_center [of "\<lambda>t. 8" 304 "\<lambda>v. v" "\<lambda>n. 0"
      "\<lparr>colors = [(''Default'', ''#C0C0C0'')], shapes = [(''Default'', ''Circle'')],
       data = [\<lparr>p_symbol = JStr ''A'', p_primaryAccession = JStr ''P1'',
                p_organism = JStr ''Homo sapiens'', p_value = Fin 5, p_type = JStr ''IC50'',
                p_unit = JStr ''nM'', p_x = None, p_y = None, p_color = None, p_shape = None\<rparr>,
               \<lparr>p_symbol = JStr ''B'', p_primaryAccession = JStr ''P2'',
                p_organism = JStr ''Mus musculus'', p_value = Fin 50, p_type = JStr ''IC50'',
                p_unit = JStr ''nM'', p_x = None, p_y = None, p_color = None, p_shape = None\<rparr>]\<rparr>"]
  by simp

text \<open>
  C9. With jitter on and violin off, when the bandwidth is positive and every draw lies in
  \<open>[0, 1)\<close>: the \<open>i\<close>-th point's offset from its band's start is a quarter of the
  bandwidth plus half the bandwidth times the \<open>i\<close>-th draw, so it is the image of the
  point's own draw in an interval half a band wide, and its x lies strictly between the
  band's start and the band's end.
\<close>

theorem jitter_inside_band:
  assumes "0 < bandwidth" and "\<forall>n. 0 \<le> rnd n \<and> rnd n < 1" and "i < length (data g)"
  shows "p_type (data (updatePointPositions True False X bandwidth Y rnd g) ! i) = p_type (data g ! i)
       \<and> p_x (data (updatePointPositions True False X bandwidth Y rnd g) ! i)
           = Some (Fin (X (p_type (data g ! i)) + (bandwidth / 4 + bandwidth / 2 * rnd i)))
       \<and> bandwidth / 4 \<le> bandwidth / 4 + bandwidth / 2 * rnd i
       \<and> bandwidth / 4 + bandwidth / 2 * rnd i < bandwidth / 4 + bandwidth / 2
       \<and> X (p_type (data g ! i)) < X (p_type (data g ! i)) + (bandwidth / 4 + bandwidth / 2 * rnd i)
       \<and> X (p_type (data g ! i)) + (bandwidth / 4 + bandwidth / 2 * rnd i)
           < X (p_type (data g ! i)) + bandwidth"
proof -
  have r: "0 \<le> rnd i" "rnd i < 1" using assms(2) by auto
  have nth: "data (updatePointPositions True False X bandwidth Y rnd g) ! i =
      (data g ! i)\<lparr>p_x := Some (Fin (X (p_type (data g ! i)) + dx_of True False (bandwidth / 4) (rnd i))),
                   p_y := Some (Y (p_value (data g ! i)))\<rparr>"
    using positions_jitter_nth [OF assms(3), of False X bandwidth Y rnd 0]
    by (simp add: updatePointPositions_def)
  have dx: "dx_of True False (bandwidth / 4) (rnd i) = bandwidth / 4 + bandwidth / 2 * rnd i"
    by (simp add: dx_of_def)
  define m where "m = bandwidth * rnd i"
  have lo: "0 \<le> m"
    using assms(1) r(1) by (simp add: m_def)
  have hi: "m < bandwidth"
    using assms(1) r(2) by (simp add: m_def)
  have half: "bandwidth / 2 * rnd i = m / 2"
    by (simp add: m_def)
  show ?thesis
    unfolding nth dx half using lo hi assms(1) by simp
qed

theorem jitter_inside_band_witness:
  "(0::real) < 304 \<and> (\<forall>n::nat. (0::real) \<le> 3 / 4 \<and> (3::real) / 4 < 1)
   \<and> 1 < length (data \<lparr>colors = [(''Default'', ''#C0C0C0'')], shapes = [(''Default'', ''Circle'')],
       data = [\<lparr>p_symbol = JStr ''A'', p_primaryAccession = JStr ''P1'',
                p_organism = JStr ''Homo sapiens'', p_value = Fin 5, p_type = JStr ''IC50'',
                p_unit = JStr ''nM'', p_x = None, p_y = None, p_color = None, p_shape = None\<rparr>,
               \<lparr>p_symbol = JStr ''B'', p_primaryAccession = JStr ''P2'',
                p_organism = JStr ''Mus musculus'', p_value = Fin 50, p_type = JStr ''IC50'',
                p_unit = JStr ''nM'', p_x = None, p_y = None, p_color = None, p_shape = None\<rparr>]\<rparr>)
   \<and> p_x (data (updatePointPositions True False (\<lambda>t. 8) 304 (\<lambda>v. v) (\<lambda>n. 3 / 4)
      \<lparr>colors = [(''Default'', ''#C0C0C0'')], shapes = [(''Default'', ''Circle'')],
       data = [\<lparr>p_symbol = JStr ''A'', p_primaryAccession = JStr ''P1'',
                p_organism = JStr ''Homo sapiens'', p_value = Fin 5, p_type = JStr ''IC50'',
                p_unit = JStr ''nM'', p_x = None, p_y = None, p_color = None, p_shape = None\<rparr>,
               \<lparr>p_symbol = JStr ''B'', p_primaryAccession = JStr ''P2'',
                p_organism = JStr ''Mus musculus'', p_value = Fin 50, p_type = JStr ''IC50'',
                p_unit = JStr ''nM'', p_x = None, p_y = None, p_color = None, p_shape = None\<rparr>]\<rparr>) ! 1) = Some (Fin 198)"
  using jitter_inside_band [of 304 "\<lambda>n. 3 / 4" 1
      "\<lparr>colors = [(''Default'', ''#C0C0C0'')], shapes = [(''Default'', ''Circle'')],
       data = [\<lparr>p_symbol = JStr ''A'', p_primaryAccession = JStr ''P1'',
                p_organism = JStr ''Homo sapiens'', p_value = Fin 5, p_type = JStr ''IC50'',
                p_unit = JStr ''nM'', p_x = None, p_y = None, p_color = None, p_shape = None\<rparr>,
               \<lparr>p_symbol = JStr ''B'', p_primaryAccession = JStr ''P2'',
                p_organism = JStr ''Mus musculus'', p_value = Fin 50, p_type = JStr ''IC50'',
                p_unit = JStr ''nM'', p_x = None, p_y = None, p_color = None, p_shape = None\<rparr>]\<rparr>" "\<lambda>t. 8" "\<lambda>v. v"]
  by simp

section \<open>The y scale of a single value\<close>

lemma minmax_step_const:
  "list_all (\<lambda>p. p_value p = Fin v) ps \<Longrightarrow>
     foldl (\<lambda>p c. (Math_min (p_value c) (fst p), Math_max (p_value c) (snd p))) (Fin v, Fin v) ps
       = (Fin v, Fin v)"
  by (induction ps) simp_all

lemma initYAxis_minmax_const:
  assumes "ps \<noteq> []" and "list_all (\<lambda>p. p_value p = Fin v) ps"
  shows "initYAxis_minmax ps = (Fin v, Fin v)"
proof (cases ps)
  case Nil
  with assms(1) show ?thesis by simp
next
  case (Cons p qs)
  with assms(2) show ?thesis
    by (simp add: initYAxis_minmax_def minmax_step_const)
qed

text \<open>
  C6, as amended. For a non-empty point set whose points all have the value \<open>v\<close>,
  \<open>initYAxis\<close> hands \<open>[v, v]\<close> to the scale as it is, with no padding. The only widening
  is that of \<open>nice\<close>, which replaces the bounds by \<open>pows(Math.floor(logs(v)))\<close> and
  \<open>pows(Math.ceil(logs(v)))\<close>; so the domain is a single point whenever the logarithm
  that the scale computes for \<open>v\<close> is a whole number.
\<close>

theorem single_value_domain:
  assumes "ps \<noteq> []" and "list_all (\<lambda>p. p_value p = Fin v) ps"
  shows "initYAxis_minmax ps = (Fin v, Fin v)
       \<and> initYAxis logs pows ps
           = (pows (Math_floor (logs (Fin v))), pows (Math_ceil (logs (Fin v))))
       \<and> (Math_floor (logs (Fin v)) = Math_ceil (logs (Fin v)) \<longrightarrow>
            fst (initYAxis logs pows ps) = snd (initYAxis logs pows ps))"
proof -
  have mm: "initYAxis_minmax ps = (Fin v, Fin v)"
    using assms by (rule initYAxis_minmax_const)
  have dom: "initYAxis logs pows ps
      = (pows (Math_floor (logs (Fin v))), pows (Math_ceil (logs (Fin v))))"
    by (simp add: initYAxis_def mm scaleLog_nice_def js_lt_def Let_def)
  from mm dom show ?thesis by simp
qed

lemma floor_log10_5: "\<lfloor>log 10 (5::real)\<rfloor> = 0"
proof -
  have "0 \<le> log 10 (5::real)" by simp
  moreover have "log 10 (5::real) < log 10 10"
    by (subst log_less_cancel_iff) simp_all
  then have "log 10 (5::real) < 1" by simp
  ultimately show ?thesis by (simp add: floor_eq_iff)
qed

lemma ceiling_log10_5: "\<lceil>log 10 (5::real)\<rceil> = 1"
proof -
  have "log 10 (1::real) < log 10 5"
    by (subst log_less_cancel_iff) simp_all
  then have "0 < log 10 (5::real)" by simp
  moreover have "log 10 (5::real) \<le> log 10 10"
    by (subst log_le_cancel_iff) simp_all
  then have "log 10 (5::real) \<le> 1" by simp
  ultimately show ?thesis by (simp add: ceiling_eq_iff)
qed

theorem single_value_domain_witness:
  "[\<lparr>p_symbol = JStr ''A'', p_primaryAccession = JStr ''P1'',
       p_organism = JStr ''Homo sapiens'', p_value = Fin 10, p_type = JStr ''IC50'',
       p_unit = JStr ''nM'', p_x = None, p_y = None, p_color = None, p_shape = None\<rparr>] \<noteq> []
   \<and> list_all (\<lambda>p. p_value p = Fin 10)
       [\<lparr>p_symbol = JStr ''A'', p_primaryAccession = JStr ''P1'',
       p_organism = JStr ''Homo sapiens'', p_value = Fin 10, p_type = JStr ''IC50'',
       p_unit = JStr ''nM'', p_x = None, p_y = None, p_color = None, p_shape = None\<rparr>]
   \<and> Math_floor ((\<lambda>x. case x of Fin r \<Rightarrow> Fin (log 10 r) | y \<Rightarrow> y) (Fin 10)) = Math_ceil ((\<lambda>x. case x of Fin r \<Rightarrow> Fin (log 10 r) | y \<Rightarrow> y) (Fin 10))
   \<and> initYAxis (\<lambda>x. case x of Fin r \<Rightarrow> Fin (log 10 r) | y \<Rightarrow> y) (\<lambda>x. case x of Fin r \<Rightarrow> Fin (10 powr r) | y \<Rightarrow> y)
       [\<lparr>p_symbol = JStr ''A'', p_primaryAccession = JStr ''P1'',
       p_organism = JStr ''Homo sapiens'', p_value = Fin 10, p_type = JStr ''IC50'',
       p_unit = JStr ''nM'', p_x = None, p_y = None, p_color = None, p_shape = None\<rparr>] = (Fin 10, Fin 10)
   \<and> initYAxis (\<lambda>x. case x of Fin r \<Rightarrow> Fin (log 10 r) | y \<Rightarrow> y) (\<lambda>x. case x of Fin r \<Rightarrow> Fin (10 powr r) | y \<Rightarrow> y)
       [\<lparr>p_symbol = JStr ''A'', p_primaryAccession = JStr ''P1'',
       p_organism = JStr ''Homo sapiens'', p_value = Fin 5, p_type = JStr ''IC50'',
       p_unit = JStr ''nM'', p_x = None, p_y = None, p_color = None, p_shape = None\<rparr>] = (Fin 1, Fin 10)"
  using single_value_domain [of
       "[\<lparr>p_symbol = JStr ''A'', p_primaryAccession = JStr ''P1'',
       p_organism = JStr ''Homo sapiens'', p_value = Fin 10, p_type = JStr ''IC50'',
       p_unit = JStr ''nM'', p_x = None, p_y = None, p_color = None, p_shape = None\<rparr>]" 10 "(\<lambda>x. case x of Fin r \<Rightarrow> Fin (log 10 r) | y \<Rightarrow> y)" "(\<lambda>x. case x of Fin r \<Rightarrow> Fin (10 powr r) | y \<Rightarrow> y)"]
     single_value_domain [of
       "[\<lparr>p_symbol = JStr ''A'', p_primaryAccession = JStr ''P1'',
       p_organism = JStr ''Homo sapiens'', p_value = Fin 5, p_type = JStr ''IC50'',
       p_unit = JStr ''nM'', p_x = None, p_y = None, p_color = None, p_shape = None\<rparr>]" 5 "(\<lambda>x. case x of Fin r \<Rightarrow> Fin (log 10 r) | y \<Rightarrow> y)" "(\<lambda>x. case x of Fin r \<Rightarrow> Fin (10 powr r) | y \<Rightarrow> y)"]
  by (simp add: floor_log10_5 ceiling_log10_5)

text \<open>
  The claim as first stated fails: for the single value 10 the domain handed to the scale
  is \<open>[10, 10]\<close>, and with \<open>Math.log10(10) = 1\<close> and \<open>1e1 = 10\<close> it stays \<open>[10, 10]\<close>.
\<close>

theorem single_value_domain_counterexample:
  "initYAxis_minmax
     [\<lparr>p_symbol = JStr ''A'', p_primaryAccession = JStr ''P1'',
       p_organism = JStr ''Homo sapiens'', p_value = Fin 10, p_type = JStr ''IC50'',
       p_unit = JStr ''nM'', p_x = None, p_y = None, p_color = None, p_shape = None\<rparr>]
     = (Fin 10, Fin 10)
   \<and> \<not> (\<exists>logs pows. logs (Fin 10) = Fin 1 \<and> pows (Fin 1) = Fin 10
          \<and> initYAxis logs pows
     [\<lparr>p_symbol = JStr ''A'', p_primaryAccession = JStr ''P1'',
       p_organism = JStr ''Homo sapiens'', p_value = Fin 10, p_type = JStr ''IC50'',
       p_unit = JStr ''nM'', p_x = None, p_y = None, p_color = None, p_shape = None\<rparr>]
              \<noteq> (Fin 10, Fin 10))"
  by (simp add: initYAxis_def initYAxis_minmax_def scaleLog_nice_def js_lt_def Let_def)

section \<open>Binning\<close>

lemma bisectRight_bounds:
  "lo \<le> hi \<Longrightarrow> lo \<le> bisectRight a x lo hi \<and> bisectRight a x lo hi \<le> hi"
proof (induction a x lo hi rule: bisectRight.induct)
  case (1 a x lo hi)
  show ?case
  proof (cases "lo < hi")
    case False
    with "1.prems" show ?thesis by (subst (1 2) bisectRight.simps) simp
  next
    case True
    define mid where "mid = (lo + hi) div 2"
    have mid: "lo \<le> mid" "mid < hi" using True by (simp_all add: mid_def)
    show ?thesis
    proof (cases "mid < length a \<and> js_lt x (a ! mid)")
      case True
      have "lo \<le> bisectRight a x lo mid \<and> bisectRight a x lo mid \<le> mid"
        using "1.IH"(1) [OF \<open>lo < hi\<close> mid_def True mid(1)] .
      moreover have "bisectRight a x lo hi = bisectRight a x lo mid"
        using \<open>lo < hi\<close> True by (subst bisectRight.simps) (simp add: mid_def Let_def)
      ultimately show ?thesis using mid by simp
    next
      case False
      have "mid + 1 \<le> bisectRight a x (mid + 1) hi \<and> bisectRight a x (mid + 1) hi \<le> hi"
        using "1.IH"(2) [OF \<open>lo < hi\<close> mid_def False] mid by simp
      moreover have "bisectRight a x lo hi = bisectRight a x (mid + 1) hi"
        using \<open>lo < hi\<close> False by (subst bisectRight.simps) (auto simp: mid_def Let_def)
      ultimately show ?thesis using mid by simp
    qed
  qed
qed

lemma sum_list_delta:
  "k < n \<Longrightarrow> sum_list (map (\<lambda>i. if k = i then 1 else 0) [0..<n]) = (1::nat)"
  by (simp add: interv_sum_list_conv_sum_set_nat)

lemma count_partition:
  assumes "\<And>x. D x \<Longrightarrow> f x < n"
  shows "sum_list (map (\<lambda>i. length (filter (\<lambda>x. D x \<and> f x = i) xs)) [0..<n]) = length (filter D xs)"
proof (induction xs)
  case Nil
  then show ?case by simp
next
  case (Cons x xs)
  have split: "\<And>i. length (filter (\<lambda>x. D x \<and> f x = i) (x # xs))
      = (if D x \<and> f x = i then 1 else 0) + length (filter (\<lambda>x. D x \<and> f x = i) xs)"
    by simp
  have one: "sum_list (map (\<lambda>i. if D x \<and> f x = i then 1 else 0) [0..<n]) = (if D x then 1 else (0::nat))"
  proof (cases "D x")
    case True
    then show ?thesis using sum_list_delta [OF assms [OF True]] by simp
  next
    case False
    then show ?thesis by simp
  qed
  show ?case
    unfolding split by (simp only: sum_list_addf one Cons.IH) simp
qed

lemma histogram_count:
  "sum_list (map (\<lambda>b. length (b_values b)) (histogram ydomain ticks vals))
     = length (filter (\<lambda>x. js_le (fst ydomain) x \<and> js_le x (snd ydomain)) vals)"
proof -
  define tz where "tz = trim_thresholds (fst ydomain) (snd ydomain) ticks"
  have bound: "\<And>x. bisectRight tz x 0 (length tz) < length tz + 1"
    using bisectRight_bounds [of 0 "length tz" tz] by (simp add: less_Suc_eq_le)
  have "sum_list (map (\<lambda>b. length (b_values b)) (histogram ydomain ticks vals))
      = sum_list (map (\<lambda>i. length (filter (\<lambda>x. (js_le (fst ydomain) x \<and> js_le x (snd ydomain))
            \<and> bisectRight tz x 0 (length tz) = i) vals)) [0..<length tz + 1])"
    by (simp add: histogram_def Let_def tz_def comp_def conj_assoc)
  also have "\<dots> = length (filter (\<lambda>x. js_le (fst ydomain) x \<and> js_le x (snd ydomain)) vals)"
    by (rule count_partition) (rule bound)
  finally show ?thesis .
qed

lemma set_foldl_Set_add: "set (foldl Set_add s ks) = set s \<union> set ks"
  by (induction ks arbitrary: s) (auto simp: Set_add_def)

lemma distinct_foldl_Set_add: "distinct s \<Longrightarrow> distinct (foldl Set_add s ks)"
  by (induction ks arbitrary: s) (auto simp: Set_add_def)

lemma map_of_rollup:
  "map_of (rollup vals reduce key) k =
     (if k \<in> key ` set vals then Some (reduce (filter (\<lambda>v. key v = k) vals)) else None)"
proof -
  have "map_of (map (\<lambda>k. (k, reduce (filter (\<lambda>v. key v = k) vals))) ks) k
      = (if k \<in> set ks then Some (reduce (filter (\<lambda>v. key v = k) vals)) else None)" for ks
    by (induction ks) auto
  then show ?thesis
    by (simp add: rollup_def set_foldl_Set_add)
qed

lemma bins_count:
  assumes "p \<in> set ps"
  shows "\<exists>bins. map_of (initHistogramBins ydomain ticks ps) (p_type p) = Some bins
          \<and> sum_list (map (\<lambda>b. length (b_values b)) bins)
              = length (filter (\<lambda>q. p_type q = p_type p
                    \<and> js_le (fst ydomain) (p_value q) \<and> js_le (p_value q) (snd ydomain)) ps)"
proof -
  have "map_of (initHistogramBins ydomain ticks ps) (p_type p)
      = Some (histogram ydomain ticks (map p_value (filter (\<lambda>q. p_type q = p_type p) ps)))"
    using assms by (simp add: initHistogramBins_def map_of_rollup)
  moreover have "sum_list (map (\<lambda>b. length (b_values b))
        (histogram ydomain ticks (map p_value (filter (\<lambda>q. p_type q = p_type p) ps))))
      = length (filter (\<lambda>q. p_type q = p_type p
                    \<and> js_le (fst ydomain) (p_value q) \<and> js_le (p_value q) (snd ydomain)) ps)"
    by (simp add: histogram_count filter_map comp_def)
  ultimately show ?thesis by simp
qed

text \<open>
  C7, as amended. When every point's value lies within the domain of the y scale that the
  bins are built on, the bins of each type that occurs in the point set hold, summed over
  the buckets, as many values as the set has points of that type.
\<close>

theorem binning_conserves:
  assumes "list_all (\<lambda>q. js_le (fst ydomain) (p_value q) \<and> js_le (p_value q) (snd ydomain)) ps"
  shows "\<forall>p \<in> set ps. \<exists>bins.
           map_of (initHistogramBins ydomain ticks ps) (p_type p) = Some bins
           \<and> sum_list (map (\<lambda>b. length (b_values b)) bins)
               = length (filter (\<lambda>q. p_type q = p_type p) ps)"
proof
  fix p
  assume "p \<in> set ps"
  from bins_count [OF this, of ydomain ticks] obtain bins where
    bins: "map_of (initHistogramBins ydomain ticks ps) (p_type p) = Some bins"
    and count: "sum_list (map (\<lambda>b. length (b_values b)) bins)
              = length (filter (\<lambda>q. p_type q = p_type p
                    \<and> js_le (fst ydomain) (p_value q) \<and> js_le (p_value q) (snd ydomain)) ps)"
    by blast
  have "filter (\<lambda>q. p_type q = p_type p
          \<and> js_le (fst ydomain) (p_value q) \<and> js_le (p_value q) (snd ydomain)) ps
      = filter (\<lambda>q. p_type q = p_type p) ps"
    using assms by (intro filter_cong) (auto simp: list_all_iff)
  with bins count show "\<exists>bins. map_of (initHistogramBins ydomain ticks ps) (p_type p) = Some bins
           \<and> sum_list (map (\<lambda>b. length (b_values b)) bins)
               = length (filter (\<lambda>q. p_type q = p_type p) ps)"
    by simp
qed

theorem binning_conserves_witness:
  "list_all (\<lambda>q. js_le (fst (Fin 1, Fin 100)) (p_value q) \<and> js_le (p_value q) (snd (Fin 1, Fin 100)))
     [\<lparr>p_symbol = JStr ''A'', p_primaryAccession = JStr ''P1'',
        p_organism = JStr ''Homo sapiens'', p_value = Fin 5, p_type = JStr ''IC50'',
        p_unit = JStr ''nM'', p_x = None, p_y = None, p_color = None, p_shape = None\<rparr>,
      \<lparr>p_symbol = JStr ''B'', p_primaryAccession = JStr ''P2'',
        p_organism = JStr ''Mus musculus'', p_value = Fin 50, p_type = JStr ''IC50'',
        p_unit = JStr ''nM'', p_x = None, p_y = None, p_color = None, p_shape = None\<rparr>]
   \<and> (\<exists>bins. map_of (initHistogramBins (Fin 1, Fin 100) [Fin 1, Fin 10, Fin 100]
     [\<lparr>p_symbol = JStr ''A'', p_primaryAccession = JStr ''P1'',
        p_organism = JStr ''Homo sapiens'', p_value = Fin 5, p_type = JStr ''IC50'',
        p_unit = JStr ''nM'', p_x = None, p_y = None, p_color = None, p_shape = None\<rparr>,
      \<lparr>p_symbol = JStr ''B'', p_primaryAccession = JStr ''P2'',
        p_organism = JStr ''Mus musculus'', p_value = Fin 50, p_type = JStr ''IC50'',
        p_unit = JStr ''nM'', p_x = None, p_y = None, p_color = None, p_shape = None\<rparr>]) (JStr ''IC50'') = Some bins
       \<and> sum_list (map (\<lambda>b. length (b_values b)) bins) = 2)"
  using binning_conserves [of "(Fin 1, Fin 100)"
     "[\<lparr>p_symbol = JStr ''A'', p_primaryAccession = JStr ''P1'',
        p_organism = JStr ''Homo sapiens'', p_value = Fin 5, p_type = JStr ''IC50'',
        p_unit = JStr ''nM'', p_x = None, p_y = None, p_color = None, p_shape = None\<rparr>,
      \<lparr>p_symbol = JStr ''B'', p_primaryAccession = JStr ''P2'',
        p_organism = JStr ''Mus musculus'', p_value = Fin 50, p_type = JStr ''IC50'',
        p_unit = JStr ''nM'', p_x = None, p_y = None, p_color = None, p_shape = None\<rparr>]" "[Fin 1, Fin 10, Fin 100]"]
  by (simp add: eval_nat_numeral)

text \<open>
  The claim as first stated fails on the chart's own scale. The double printed as
  \<open>999.9999999999999\<close> is \<open>1000 - 1 / 2 ^ 43\<close>; \<open>Math.log10\<close> of it is \<open>3\<close> and \<open>1e3\<close> is
  \<open>1000\<close>. For a point set with this single value the scale built by \<open>initYAxis\<close> has the
  domain \<open>[1000, 1000]\<close>, the value is below it, and whatever the ticks are the point is
  in no bucket.
\<close>

theorem binning_conserves_counterexample:
  "\<not> (\<exists>logs pows ticks bins.
         logs (Fin (1000 - 1 / 2 ^ 43)) = Fin 3 \<and> pows (Fin 3) = Fin 1000
         \<and> map_of (initHistogramBins
               (initYAxis logs pows
                  [\<lparr>p_symbol = JStr ''A'', p_primaryAccession = JStr ''P1'',
       p_organism = JStr ''Homo sapiens'', p_value = Fin (1000 - 1 / 2 ^ 43), p_type = JStr ''IC50'',
       p_unit = JStr ''nM'', p_x = None, p_y = None, p_color = None, p_shape = None\<rparr>]) ticks
               [\<lparr>p_symbol = JStr ''A'', p_primaryAccession = JStr ''P1'',
       p_organism = JStr ''Homo sapiens'', p_value = Fin (1000 - 1 / 2 ^ 43), p_type = JStr ''IC50'',
       p_unit = JStr ''nM'', p_x = None, p_y = None, p_color = None, p_shape = None\<rparr>]) (JStr ''IC50'') = Some bins
         \<and> sum_list (map (\<lambda>b. length (b_values b)) bins)
             = length (filter (\<lambda>q. p_type q = JStr ''IC50'')
               [\<lparr>p_symbol = JStr ''A'', p_primaryAccession = JStr ''P1'',
       p_organism = JStr ''Homo sapiens'', p_value = Fin (1000 - 1 / 2 ^ 43), p_type = JStr ''IC50'',
       p_unit = JStr ''nM'', p_x = None, p_y = None, p_color = None, p_shape = None\<rparr>]))"
proof
  let ?p = "\<lparr>p_symbol = JStr ''A'', p_primaryAccession = JStr ''P1'',
       p_organism = JStr ''Homo sapiens'', p_value = Fin (1000 - 1 / 2 ^ 43), p_type = JStr ''IC50'',
       p_unit = JStr ''nM'', p_x = None, p_y = None, p_color = None, p_shape = None\<rparr>"
  assume "\<exists>logs pows ticks bins.
         logs (Fin (1000 - 1 / 2 ^ 43)) = Fin 3 \<and> pows (Fin 3) = Fin 1000
         \<and> map_of (initHistogramBins (initYAxis logs pows [?p]) ticks [?p]) (JStr ''IC50'') = Some bins
         \<and> sum_list (map (\<lambda>b. length (b_values b)) bins)
             = length (filter (\<lambda>q. p_type q = JStr ''IC50'') [?p])"
  then obtain logs pows ticks bins where
    logs: "logs (Fin (1000 - 1 / 2 ^ 43)) = Fin 3" and pows: "pows (Fin 3) = Fin 1000"
    and bins: "map_of (initHistogramBins (initYAxis logs pows [?p]) ticks [?p]) (JStr ''IC50'') = Some bins"
    and count: "sum_list (map (\<lambda>b. length (b_values b)) bins)
             = length (filter (\<lambda>q. p_type q = JStr ''IC50'') [?p])"
    by blast
  have dom: "initYAxis logs pows [?p] = (Fin 1000, Fin 1000)"
    using logs pows
    by (simp add: initYAxis_def initYAxis_minmax_def scaleLog_nice_def js_lt_def Let_def)
  have "?p \<in> set [?p]" by simp
  from bins_count [OF this, of "(Fin 1000, Fin 1000)" ticks] obtain bins' where
    bins': "map_of (initHistogramBins (Fin 1000, Fin 1000) ticks [?p]) (p_type ?p) = Some bins'"
    and count': "sum_list (map (\<lambda>b. length (b_values b)) bins')
      = length (filter (\<lambda>q. p_type q = p_type ?p
            \<and> js_le (fst (Fin 1000, Fin 1000)) (p_value q)
            \<and> js_le (p_value q) (snd (Fin 1000, Fin 1000))) [?p])"
    by blast
  from bins [unfolded dom] bins' have "bins' = bins"
    by simp
  with count' have "sum_list (map (\<lambda>b. length (b_values b)) bins) = 0"
    by simp
  with count show False by simp
qed

end
